theory Spec2Isabelle
  imports Complex_Main
begin

section \<open>Python values and exceptions\<close>

text \<open>
  Exceptions are values. \<open>Exception msg\<close> is \<^verbatim>\<open>raise Exception(msg)\<close> with the message
  of the source; \<open>NameError n\<close> is what Python raises when the name \<open>n\<close> is looked up and
  is bound neither in the function, nor at module level, nor in the builtins.

  Python floats are modelled by \<open>real\<close>: rounding is not represented. Where the source
  does float arithmetic, overflow to an infinity and nan are represented (type
  \<open>np_float\<close> below).
\<close>

datatype py_error =
    NameError string
  | ValueError
  | TypeError
  | KeyError string
  | OverflowError
  | Exception string

section \<open>Bounds\<close>

text \<open>
  Modelled from the spec: the constants \<^verbatim>\<open>NEG_INFINITY\<close> and \<^verbatim>\<open>POS_INFINITY\<close> of
  \<^verbatim>\<open>funman.constants\<close> are not among the sources. The spec (3): a bound (fields \<^verbatim>\<open>lb\<close>,
  \<^verbatim>\<open>ub\<close> of \<^verbatim>\<open>Interval\<close>) is a finite number or one of the two sentinels. The source
  tests for a sentinel with \<^verbatim>\<open>==\<close>, which is equality of this datatype.
\<close>

datatype bound = NEG_INFINITY | POS_INFINITY | Num real

text \<open>
  Modelled from the spec: the module \<^verbatim>\<open>funman.utils.math_utils\<close> is not among the
  sources; the methods modelled below call its \<^verbatim>\<open>lt\<close>, \<^verbatim>\<open>gt\<close> and \<^verbatim>\<open>div\<close>. The spec
  (4.1): the negative sentinel is strictly less than every finite value, never strictly
  less than itself, the positive sentinel symmetrically; finite values compare exactly.
\<close>

fun lt :: "bound \<Rightarrow> bound \<Rightarrow> bool" where
  "lt (Num x) (Num y) = (x < y)"
| "lt NEG_INFINITY NEG_INFINITY = False"
| "lt NEG_INFINITY _ = True"
| "lt _ NEG_INFINITY = False"
| "lt POS_INFINITY _ = False"
| "lt _ POS_INFINITY = True"

definition gt :: "bound \<Rightarrow> bound \<Rightarrow> bool" where
  "gt a b = lt b a"

text \<open>
  Modelled from the spec: \<^verbatim>\<open>math_utils.div\<close> is not among the sources. The spec (4.1):
  a sentinel divided by a positive number is the same sentinel; a non-positive divisor
  yields zero, not an error.
\<close>

definition div_bound :: "bound \<Rightarrow> real \<Rightarrow> bound" where
  "div_bound a n =
     (if 0 < n then (case a of Num x \<Rightarrow> Num (x / n) | s \<Rightarrow> s) else Num 0)"

section \<open>Interval (representation/interval.py)\<close>

record Interval =
  lb :: bound
  ub :: bound
  closed_upper_bound :: bool
  cached_width :: "real option"

text \<open>
  The module's logger \<^verbatim>\<open>l\<close> receives warnings. The text of a message formats floats
  and is not modelled; a log entry records which warning was issued and for which
  interval.
\<close>

datatype log_entry = Warning_equal_bounds Interval

text \<open>
  \<^verbatim>\<open>check_interval\<close> is the validator pydantic runs after the fields of a new Interval
  are set. It returns the (possibly changed) interval and what it logged.
\<close>

definition check_interval :: "Interval \<Rightarrow> Interval \<times> log_entry list" where
  "check_interval self =
     (if lb self = ub self \<and> \<not> closed_upper_bound self
      then (self\<lparr>closed_upper_bound := True\<rparr>, [Warning_equal_bounds self])
      else (self, []))"

text \<open>
  The constructor \<^verbatim>\<open>Interval(lb=l, ub=u, closed_upper_bound=c)\<close>: the fields are set,
  \<^verbatim>\<open>cached_width\<close> takes its default \<^verbatim>\<open>None\<close>, then the validator runs.
  \<open>Interval_init\<close> keeps the log, \<open>Interval_new\<close> is the constructed object alone.
\<close>

definition Interval_init :: "bound \<Rightarrow> bound \<Rightarrow> bool \<Rightarrow> Interval \<times> log_entry list" where
  "Interval_init l u c =
     check_interval \<lparr>lb = l, ub = u, closed_upper_bound = c, cached_width = None\<rparr>"

definition Interval_new :: "bound \<Rightarrow> bound \<Rightarrow> bool \<Rightarrow> Interval" where
  "Interval_new l u c = fst (Interval_init l u c)"

text \<open>\<^verbatim>\<open>__eq__\<close>: structural on the two bounds only.\<close>

definition Interval_eq :: "Interval \<Rightarrow> Interval \<Rightarrow> bool" where
  "Interval_eq self other = (lb self = lb other \<and> ub self = ub other)"

text \<open>
  \<^verbatim>\<open>normalize\<close> (here \<open>normalize_interval\<close>): both keyword arguments of the
  constructor call are computed from \<^verbatim>\<open>self.lb\<close> (lines 79 and 80 of the source);
  \<^verbatim>\<open>closed_upper_bound\<close> is not passed and takes its default \<^verbatim>\<open>False\<close>.
\<close>

definition normalize_interval :: "Interval \<Rightarrow> real \<Rightarrow> Interval" where
  "normalize_interval self normalization_factor =
     Interval_new (div_bound (lb self) normalization_factor)
                  (div_bound (lb self) normalization_factor) False"

text \<open>
  Modelled from the spec: the native comparison \<^verbatim>\<open><=\<close> of two bounds, which
  \<^verbatim>\<open>contains\<close> applies when neither operand is the sentinel its branch tests for,
  depends on the sentinels of \<^verbatim>\<open>funman.constants\<close>. The spec (3): every finite value
  compares strictly between the two sentinels.
\<close>

definition bound_le :: "bound \<Rightarrow> bound \<Rightarrow> bool" where
  "bound_le a b = (a = b \<or> lt a b)"

definition contains :: "Interval \<Rightarrow> Interval \<Rightarrow> bool" where
  "contains self other =
     (let lhs = (if lb self = NEG_INFINITY \<or> lb other = NEG_INFINITY
                 then (lb self = NEG_INFINITY \<or> lb other \<noteq> NEG_INFINITY)
                 else bound_le (lb self) (lb other));
          rhs = (if ub self = POS_INFINITY \<or> ub other = POS_INFINITY
                 then (ub other \<noteq> POS_INFINITY \<or> ub self = POS_INFINITY)
                 else bound_le (ub other) (ub self))
      in lhs \<and> rhs)"

text \<open>
  \<^verbatim>\<open>intersection\<close> returns one of three Python objects: \<^verbatim>\<open>self\<close> (an Interval), a
  two-element list of floats, or the empty list. \<^verbatim>\<open>float(..)\<close> of a bound leaves a
  number as it is and turns a sentinel into its float value, which the model keeps as
  the sentinel.
\<close>

datatype intersection_result = Same Interval | Bounds "bound list"

definition intersection :: "Interval \<Rightarrow> Interval \<Rightarrow> intersection_result" where
  "intersection self b =
     (if Interval_eq self b then Same self
      else
        let (minArray, maxArray) =
              (if lb self = lb b
               then (if lt (ub self) (ub b) then (self, b) else (b, self))
               else if lt (lb self) (lb b) then (self, b)
               else (b, self))
        in if gt (ub minArray) (lb maxArray)
           then Bounds [lb maxArray, ub minArray]
           else Bounds [])"

text \<open>\<^verbatim>\<open>subtract\<close> returns a new Interval or \<^verbatim>\<open>None\<close>.\<close>

definition subtract :: "Interval \<Rightarrow> Interval \<Rightarrow> Interval option" where
  "subtract self b =
     (if lt (lb self) (lb b) then Some (Interval_new (lb self) (lb b) False)
      else if gt (lb self) (lb b) then Some (Interval_new (ub b) (ub self) False)
      else None)"

text \<open>
  The result of float arithmetic: a finite float, an infinity or nan.
\<close>

datatype np_float = Float real | PInf | NInf | NaN

text \<open>
  A float operation whose exact result is \<open>r\<close> overflows to the infinity of the sign of
  \<open>r\<close> when \<open>r\<close> rounds beyond the largest double, which is so from
  \<open>2^1024 - 2^970\<close> on; below that the model keeps \<open>r\<close> itself.
\<close>

definition float_round :: "real \<Rightarrow> np_float" where
  "float_round r =
     (if 2 ^ 1024 - 2 ^ 970 \<le> r then PInf
      else if r \<le> - (2 ^ 1024 - 2 ^ 970) then NInf
      else Float r)"

text \<open>
  Addition, subtraction and halving of floats: nan is absorbing, infinities of opposite
  signs add to nan, an infinity absorbs every finite operand.
\<close>

fun float_add :: "np_float \<Rightarrow> np_float \<Rightarrow> np_float" where
  "float_add (Float x) (Float y) = float_round (x + y)"
| "float_add NaN _ = NaN"
| "float_add _ NaN = NaN"
| "float_add PInf NInf = NaN"
| "float_add NInf PInf = NaN"
| "float_add PInf _ = PInf"
| "float_add _ PInf = PInf"
| "float_add NInf _ = NInf"
| "float_add _ NInf = NInf"

fun float_neg :: "np_float \<Rightarrow> np_float" where
  "float_neg (Float x) = Float (- x)"
| "float_neg PInf = NInf"
| "float_neg NInf = PInf"
| "float_neg NaN = NaN"

definition float_sub :: "np_float \<Rightarrow> np_float \<Rightarrow> np_float" where
  "float_sub a b = float_add a (float_neg b)"

fun float_half :: "np_float \<Rightarrow> np_float" where
  "float_half (Float x) = Float (x / 2)"
| "float_half a = a"

text \<open>
  Modelled from the spec: the float a bound stands for in arithmetic depends on the
  sentinels of \<^verbatim>\<open>funman.constants\<close>. The spec (1, 4.1): the sentinels are the symbolic
  infinities and absorb in arithmetic; the sum of opposite infinities is undefined.
  So a sentinel enters float arithmetic as the infinity of its sign.
\<close>

fun bound_float :: "bound \<Rightarrow> np_float" where
  "bound_float (Num x) = Float x"
| "bound_float POS_INFINITY = PInf"
| "bound_float NEG_INFINITY = NInf"

text \<open>
  \<^verbatim>\<open>midpoint\<close>. The argument \<^verbatim>\<open>points\<close> is \<^verbatim>\<open>None\<close> or a list of groups; \<^verbatim>\<open>if points\<close>
  holds for a non-empty list. The library function \<^verbatim>\<open>numpy.average\<close>, which that
  branch applies to each group and then to the means, is the parameter \<open>average\<close>.

  The two branches with one infinite bound evaluate the name \<^verbatim>\<open>BIG_NUMBER\<close>. The
  module binds, by its imports and definitions, the names \<^verbatim>\<open>logging\<close>, \<^verbatim>\<open>Decimal\<close>,
  \<^verbatim>\<open>List\<close>, \<^verbatim>\<open>Optional\<close>, \<^verbatim>\<open>Union\<close>, \<^verbatim>\<open>average\<close>, \<^verbatim>\<open>BaseModel\<close>, \<^verbatim>\<open>Field\<close>,
  \<^verbatim>\<open>model_validator\<close>, \<^verbatim>\<open>math_utils\<close>, \<^verbatim>\<open>NEG_INFINITY\<close>, \<^verbatim>\<open>POS_INFINITY\<close>, \<^verbatim>\<open>l\<close> and
  \<^verbatim>\<open>Interval\<close> (line 9 imports only the two sentinels from \<^verbatim>\<open>funman.constants\<close>), and
  \<^verbatim>\<open>BIG_NUMBER\<close> is no builtin: the lookup raises NameError before the arithmetic.

  The last branch is the float expression \<^verbatim>\<open>((self.ub - self.lb) / 2) + self.lb\<close>; it
  is reached with a sentinel when \<^verbatim>\<open>lb\<close> is \<^verbatim>\<open>POS_INFINITY\<close> or \<^verbatim>\<open>ub\<close> is
  \<^verbatim>\<open>NEG_INFINITY\<close>.
\<close>

definition midpoint ::
  "(np_float list \<Rightarrow> np_float) \<Rightarrow> Interval \<Rightarrow> np_float list list option
     \<Rightarrow> py_error + np_float" where
  "midpoint average self points =
     (case points of
        Some (grp # grps) \<Rightarrow> Inr (average (map average (grp # grps)))
      | _ \<Rightarrow>
          if lb self = NEG_INFINITY \<and> ub self = POS_INFINITY then Inr (Float 0)
          else if lb self = NEG_INFINITY then Inl (NameError ''BIG_NUMBER'')
          else if ub self = POS_INFINITY then Inl (NameError ''BIG_NUMBER'')
          else Inr (float_add
                      (float_half (float_sub (bound_float (ub self)) (bound_float (lb self))))
                      (bound_float (lb self))))"

section \<open>Requests and scenario dispatch (server/query.py)\<close>

text \<open>
  The code modelled here never looks inside a model, a query, a constraint or a solver
  configuration: a model and a query are represented by their class, which is what
  \<^verbatim>\<open>isinstance\<close> tests, constraints and configurations are opaque.
\<close>

datatype Model =
    RegnetModel | PetrinetModel | DecapodeModel | BilayerModel
  | GeneratedRegnetModel | GeneratedPetriNetModel | EncodedModel | EnsembleModel

datatype Query = QueryAnd | QueryLE | QueryFunction | QueryTrue

typedecl StateVariableConstraint

typedecl FUNMANConfig

text \<open>
  Parameters carry the fields \<^verbatim>\<open>name\<close>, \<^verbatim>\<open>lb\<close>, \<^verbatim>\<open>ub\<close>, \<^verbatim>\<open>label\<close>, in this order in
  the constructors below.
\<close>

datatype LabeledParameter = LabeledParameter string bound bound string

fun label :: "LabeledParameter \<Rightarrow> string" where
  "label (LabeledParameter n l u lab) = lab"

datatype Parameter =
    ModelParameter string bound bound string
  | StructureParameter string bound bound string

text \<open>
  Modelled from the spec: the constant \<^verbatim>\<open>LABEL_ANY\<close> of package \<^verbatim>\<open>funman\<close> is not among
  the sources; the spec (4.5) writes the label as "ANY".
\<close>

definition LABEL_ANY :: string where
  "LABEL_ANY = ''ANY''"

record FunmanWorkRequest =
  query :: "Query option"
  constraints :: "StateVariableConstraint list option"
  parameters :: "LabeledParameter list option"
  config :: "FUNMANConfig option"
  structure_parameters :: "LabeledParameter list option"

record FunmanProgress =
  progress :: real
  coverage_of_search_space :: real
  coverage_of_representable_space :: real

text \<open>\<^verbatim>\<open>FunmanProgress()\<close>: every field at its default.\<close>

definition FunmanProgress_new :: FunmanProgress where
  "FunmanProgress_new =
     \<lparr>progress = 0, coverage_of_search_space = 0, coverage_of_representable_space = 0\<rparr>"

text \<open>
  Fields \<^verbatim>\<open>id\<close>, \<^verbatim>\<open>progress\<close>, \<^verbatim>\<open>model\<close>, \<^verbatim>\<open>request\<close> of the work unit. The
  annotation of \<^verbatim>\<open>model\<close> lists six model classes; \<^verbatim>\<open>to_scenario\<close> itself tests the
  field for \<^verbatim>\<open>EnsembleModel\<close>, so the field ranges over every class of \<open>Model\<close>.
\<close>

record FunmanWorkUnit =
  wu_id :: string
  wu_progress :: FunmanProgress
  wu_model :: Model
  wu_request :: FunmanWorkRequest

text \<open>The two scenario classes, with their keyword arguments in the order of the calls.\<close>

datatype Scenario =
    ConsistencyScenario Model Query "Parameter list" "StateVariableConstraint list option"
  | ParameterSynthesisScenario Model Query "Parameter list" "StateVariableConstraint list option"

text \<open>
  \<^verbatim>\<open>to_scenario\<close>, in three parts. \<^verbatim>\<open>hasattr(self.request, ..)\<close> holds for both
  declared fields of the request, so each guard reduces to its \<^verbatim>\<open>is not None\<close> test.

  \<open>scenario_query\<close>: the request's query, or \<^verbatim>\<open>QueryTrue()\<close>.
  \<open>scenario_parameters\<close>: the list \<^verbatim>\<open>parameters\<close> after the two appending loops.
\<close>

definition scenario_query :: "FunmanWorkRequest \<Rightarrow> Query" where
  "scenario_query request = (case query request of Some q \<Rightarrow> q | None \<Rightarrow> QueryTrue)"

definition scenario_parameters :: "FunmanWorkRequest \<Rightarrow> Parameter list" where
  "scenario_parameters request =
     (case parameters request of
        Some ds \<Rightarrow>
          map (\<lambda>d. case d of LabeledParameter n l u lab \<Rightarrow> ModelParameter n l u lab) ds
      | None \<Rightarrow> [])
     @
     (case structure_parameters request of
        Some ds \<Rightarrow>
          map (\<lambda>d. case d of LabeledParameter n l u lab \<Rightarrow> StructureParameter n l u lab) ds
      | None \<Rightarrow> [])"

text \<open>
  The dispatch. The label test reads \<^verbatim>\<open>self.request.parameters\<close> only, not the
  structure parameters.
\<close>

definition to_scenario :: "FunmanWorkUnit \<Rightarrow> py_error + Scenario" where
  "to_scenario self =
     (let request = wu_request self;
          q = scenario_query request;
          ps = scenario_parameters request
      in if (case parameters request of
               None \<Rightarrow> True
             | Some lps \<Rightarrow> list_all (\<lambda>p. label p = LABEL_ANY) lps)
         then Inr (ConsistencyScenario (wu_model self) q ps (constraints request))
         else if wu_model self = EnsembleModel
         then Inl (Exception ''TODO handle EnsembleModel for ParameterSynthesisScenario'')
         else Inr (ParameterSynthesisScenario (wu_model self) q ps (constraints request)))"

section \<open>The result aggregator FunmanResults (server/query.py)\<close>

text \<open>
  The classes \<^verbatim>\<open>ParameterSpace\<close> and \<^verbatim>\<open>AnalysisScenario\<close> are not among the sources.
  The aggregator calls three of their methods, each for a number; the model takes these
  numbers as fields.
\<close>

record ParameterSpace =
  labeled_volume :: real

record AnalysisScenario =
  search_space_volume :: real
  representable_space_volume :: real

text \<open>
  The result handed to \<^verbatim>\<open>finalize_result\<close>: one of the two result classes, each with
  its field \<^verbatim>\<open>parameter_space\<close> (possibly \<^verbatim>\<open>None\<close>), or an object of neither class.
\<close>

datatype ScenarioResult =
    ConsistencyScenarioResult "ParameterSpace option"
  | ParameterSynthesisScenarioResult "ParameterSpace option"
  | OtherResult

text \<open>
  The aggregator. \<open>fr_finalized\<close> is the private attribute \<^verbatim>\<open>_finalized\<close>; the other
  fields are \<^verbatim>\<open>id\<close>, \<^verbatim>\<open>model\<close>, \<^verbatim>\<open>progress\<close>, \<^verbatim>\<open>request\<close>, \<^verbatim>\<open>done\<close>, \<^verbatim>\<open>error\<close> and
  \<^verbatim>\<open>parameter_space\<close>.
\<close>

record FunmanResults =
  fr_finalized :: bool
  fr_id :: string
  fr_model :: Model
  fr_progress :: FunmanProgress
  fr_request :: FunmanWorkRequest
  fr_done :: bool
  fr_error :: bool
  fr_parameter_space :: "ParameterSpace option"

text \<open>\<^verbatim>\<open>FunmanResults(id=i, model=m, request=rq)\<close>: the other fields at their defaults.\<close>

definition FunmanResults_new :: "string \<Rightarrow> Model \<Rightarrow> FunmanWorkRequest \<Rightarrow> FunmanResults" where
  "FunmanResults_new i m rq =
     \<lparr>fr_finalized = False, fr_id = i, fr_model = m, fr_progress = FunmanProgress_new,
      fr_request = rq, fr_done = False, fr_error = False, fr_parameter_space = None\<rparr>"

definition is_final :: "FunmanResults \<Rightarrow> bool" where
  "is_final self = fr_finalized self"

text \<open>
  The methods mutate \<^verbatim>\<open>self\<close>: each takes the aggregator and returns, besides its
  result, the aggregator as the call leaves it. A raised exception keeps the mutations
  made before it.
\<close>

definition update_parameter_space ::
  "AnalysisScenario \<Rightarrow> ParameterSpace \<Rightarrow> FunmanResults \<Rightarrow> FunmanProgress \<times> FunmanResults" where
  "update_parameter_space scenario results self =
     (let self1 = self\<lparr>fr_parameter_space := Some results\<rparr>;
          search_volume = search_space_volume scenario;
          repr_volume = representable_space_volume scenario;
          coverage_of_search = (if search_volume = 0 then 0
                                else labeled_volume results / search_volume);
          coverage_of_repr = (if repr_volume = 0 then 0 else search_volume / repr_volume);
          p = (fr_progress self1)\<lparr>progress := coverage_of_search,
                 coverage_of_search_space := coverage_of_search,
                 coverage_of_representable_space := coverage_of_repr\<rparr>
      in (p, self1\<lparr>fr_progress := p\<rparr>))"

text \<open>
  The parameter space \<^verbatim>\<open>finalize_result\<close> finds in its result: the two \<^verbatim>\<open>isinstance\<close>
  tests, each reading the field; \<^verbatim>\<open>ps\<close> stays \<^verbatim>\<open>None\<close> for any other object.
\<close>

definition result_parameter_space :: "ScenarioResult \<Rightarrow> ParameterSpace option" where
  "result_parameter_space result =
     (case result of
        ConsistencyScenarioResult p \<Rightarrow> p
      | ParameterSynthesisScenarioResult p \<Rightarrow> p
      | OtherResult \<Rightarrow> None)"

definition finalize_result ::
  "AnalysisScenario \<Rightarrow> ScenarioResult \<Rightarrow> FunmanResults \<Rightarrow> (py_error + unit) \<times> FunmanResults" where
  "finalize_result scenario result self =
     (if fr_finalized self
      then (Inl (Exception ''FunmanResults was already finalized''), self)
      else
        let self1 = self\<lparr>fr_finalized := True\<rparr>;
            ps = result_parameter_space result
        in case ps of
             None \<Rightarrow> (Inl (Exception ''No ParameterSpace for result''), self1)
           | Some p \<Rightarrow>
               let self2 = snd (update_parameter_space scenario p self1);
                   self3 = self2\<lparr>fr_done := True\<rparr>
               in (Inr (), self3\<lparr>fr_progress := (fr_progress self3)\<lparr>progress := 1\<rparr>\<rparr>))"

definition finalize_result_as_error :: "FunmanResults \<Rightarrow> (py_error + unit) \<times> FunmanResults" where
  "finalize_result_as_error self =
     (if fr_finalized self
      then (Inl (Exception ''FunmanResults was already finalized''), self)
      else
        let self1 = self\<lparr>fr_finalized := True, fr_error := True, fr_done := True\<rparr>
        in (Inr (), self1\<lparr>fr_progress := (fr_progress self1)\<lparr>progress := 1\<rparr>\<rparr>))"

section \<open>Extraction of time-indexed values (server/query.py)\<close>

text \<open>
  A Python dictionary keeps its keys in insertion order; assigning to a key that is
  present replaces the value where it stands. Dictionaries are association lists with
  that update; a lookup is \<open>map_of\<close>.
\<close>

fun dict_set :: "('k \<times> 'v) list \<Rightarrow> 'k \<Rightarrow> 'v \<Rightarrow> ('k \<times> 'v) list" where
  "dict_set [] k v = [(k, v)]"
| "dict_set ((k', v') # d) k v =
     (if k' = k then (k, v) # d else (k', v') # dict_set d k v)"

text \<open>
  The values a point holds and the cells of an extracted series: \<^verbatim>\<open>None\<close>, a Python
  int (unbounded) or a float.
\<close>

datatype py_value = PyNone | PyInt int | PyFloat real

text \<open>
  The builtin \<^verbatim>\<open>float(value)\<close>: a float is returned as it is; an int converts unless
  it rounds beyond the largest double, which is so from \<open>2^1024 - 2^970\<close> on, where
  Python raises OverflowError; \<^verbatim>\<open>None\<close> is a TypeError.
\<close>

definition py_float :: "py_value \<Rightarrow> py_error + real" where
  "py_float v =
     (case v of
        PyFloat x \<Rightarrow> Inr x
      | PyInt n \<Rightarrow> if \<bar>n\<bar> < 2 ^ 1024 - 2 ^ 970 then Inr (real_of_int n) else Inl OverflowError
      | PyNone \<Rightarrow> Inl TypeError)"

record Point =
  point_values :: "(string \<times> py_value) list"
  point_label :: string

text \<open>\<^verbatim>\<open>sub in s\<close> on strings: \<open>sub\<close> occurs in \<open>s\<close> as a contiguous run.\<close>

fun str_in :: "string \<Rightarrow> string \<Rightarrow> bool" where
  "str_in sub [] = (sub = [])"
| "str_in sub (c # cs) = (take (length sub) (c # cs) = sub \<or> str_in sub cs)"

text \<open>
  \<^verbatim>\<open>_split_symbol\<close> (here \<open>split_symbol\<close>): \<^verbatim>\<open>symbol.rsplit("_", 1)\<close> cuts at the last
  underscore; without an underscore it returns one piece, and unpacking into two names
  raises ValueError.
\<close>

definition split_symbol :: "string \<Rightarrow> py_error + (string \<times> string)" where
  "split_symbol symbol =
     (if CHR ''_'' \<in> set symbol
      then let r = rev symbol
           in Inr (rev (tl (dropWhile (\<lambda>c. c \<noteq> CHR ''_'') r)),
                   rev (takeWhile (\<lambda>c. c \<noteq> CHR ''_'') r))
      else Inl ValueError)"

text \<open>
  \<^verbatim>\<open>_symbols\<close> (here \<open>symbols_of\<close>): \<open>symbols_loop\<close> is its loop over the keys of
  \<^verbatim>\<open>point.values\<close>, with the dictionary \<^verbatim>\<open>symbols\<close> (variable name to timepoint to
  symbol) as accumulator.
\<close>

type_synonym symbol_dict = "(string \<times> (string \<times> string) list) list"

fun symbols_loop :: "string list \<Rightarrow> string list \<Rightarrow> symbol_dict \<Rightarrow> py_error + symbol_dict" where
  "symbols_loop variables [] symbols = Inr symbols"
| "symbols_loop variables (var # rest) symbols =
     (if list_ex (\<lambda>v. str_in (v @ ''_'') var) variables
      then (case split_symbol var of
              Inl e \<Rightarrow> Inl e
            | Inr (var_name, timepoint) \<Rightarrow>
                if timepoint \<noteq> []
                then (case map_of symbols var_name of
                        None \<Rightarrow>
                          symbols_loop variables rest
                            (dict_set symbols var_name (dict_set [] timepoint var))
                      | Some tps \<Rightarrow>
                          symbols_loop variables rest
                            (dict_set symbols var_name (dict_set tps timepoint var)))
                else symbols_loop variables rest symbols)
      else symbols_loop variables rest symbols)"

definition symbols_of :: "Point \<Rightarrow> string list \<Rightarrow> py_error + symbol_dict" where
  "symbols_of point variables = symbols_loop variables (map fst (point_values point)) []"

text \<open>
  \<^verbatim>\<open>symbol_values\<close>. The inner loop runs over the timepoints of one variable. Its
  \<^verbatim>\<open>try\<close> block reads the point and converts the value; the handler of OverflowError
  is the single statement \<^verbatim>\<open>l.warning(e)\<close>. The module query.py binds no name \<^verbatim>\<open>l\<close>:
  it imports \<^verbatim>\<open>random\<close>, names of \<^verbatim>\<open>typing\<close>, \<^verbatim>\<open>pd\<close>, \<^verbatim>\<open>plt\<close>, \<^verbatim>\<open>BaseModel\<close> and
  classes and constants of \<^verbatim>\<open>funman\<close>, and defines four classes (\<^verbatim>\<open>logging\<close> is
  imported inside \<^verbatim>\<open>plot\<close> only, and no logger is created). Evaluating \<^verbatim>\<open>l\<close> in the
  handler raises NameError, which leaves \<^verbatim>\<open>symbol_values\<close>. Any other exception of the
  \<^verbatim>\<open>try\<close> block is not handled and leaves it as well.
\<close>

type_synonym value_dict = "(string \<times> (string \<times> real) list) list"

fun values_inner ::
  "(string \<times> py_value) list \<Rightarrow> (string \<times> string) list \<Rightarrow> (string \<times> real) list
     \<Rightarrow> py_error + (string \<times> real) list" where
  "values_inner pv [] acc = Inr acc"
| "values_inner pv ((t, symbol) # rest) acc =
     (case map_of pv symbol of
        None \<Rightarrow> Inl (KeyError symbol)
      | Some v \<Rightarrow>
          (case py_float v of
             Inr x \<Rightarrow> values_inner pv rest (dict_set acc t x)
           | Inl OverflowError \<Rightarrow> Inl (NameError ''l'')
           | Inl e \<Rightarrow> Inl e))"

fun values_outer ::
  "(string \<times> py_value) list \<Rightarrow> symbol_dict \<Rightarrow> value_dict \<Rightarrow> py_error + value_dict" where
  "values_outer pv [] vals = Inr vals"
| "values_outer pv ((var, tps) # rest) vals =
     (case values_inner pv tps [] of
        Inl e \<Rightarrow> Inl e
      | Inr d \<Rightarrow> values_outer pv rest (dict_set vals var d))"

definition symbol_values :: "Point \<Rightarrow> string list \<Rightarrow> py_error + value_dict" where
  "symbol_values point variables =
     (case symbols_of point variables of
        Inl e \<Rightarrow> Inl e
      | Inr vars \<Rightarrow> values_outer (point_values point) vars [])"

text \<open>
  \<^verbatim>\<open>str.isdigit\<close> and \<^verbatim>\<open>int\<close> on strings of bytes: a non-empty string of the ten
  ASCII digits, read in base ten. (Python also accepts digits beyond ASCII, which a
  \<open>char\<close> does not hold.)
\<close>

definition isdigit :: "string \<Rightarrow> bool" where
  "isdigit s = (s \<noteq> [] \<and> list_all (\<lambda>c. c \<in> set ''0123456789'') s)"

definition digit_value :: "char \<Rightarrow> nat" where
  "digit_value c = length (takeWhile (\<lambda>d. d \<noteq> c) ''0123456789'')"

definition py_int :: "string \<Rightarrow> nat" where
  "py_int s = foldl (\<lambda>a c. 10 * a + digit_value c) 0 s"

text \<open>\<^verbatim>\<open>max\<close> of a list: ValueError on the empty list.\<close>

fun py_max :: "nat list \<Rightarrow> py_error + nat" where
  "py_max [] = Inl ValueError"
| "py_max (x # xs) = Inr (fold max xs x)"

text \<open>
  \<^verbatim>\<open>symbol_timeseries\<close>. \<open>max_timepoint\<close> is the inner \<^verbatim>\<open>max\<close>, over the digit keys of
  one variable and 0. \<open>fill_values\<close> is the loop that writes the values of one variable
  into its list; an index it writes is at most \<^verbatim>\<open>max_t\<close>, so within the list.
\<close>

definition max_timepoint :: "(string \<times> real) list \<Rightarrow> py_error + nat" where
  "max_timepoint tps = py_max (map py_int (filter isdigit (map fst tps)) @ [0])"

fun max_timepoints :: "value_dict \<Rightarrow> py_error + nat list" where
  "max_timepoints [] = Inr []"
| "max_timepoints ((var, tps) # rest) =
     (case max_timepoint tps of
        Inl e \<Rightarrow> Inl e
      | Inr m \<Rightarrow> (case max_timepoints rest of Inl e \<Rightarrow> Inl e | Inr ms \<Rightarrow> Inr (m # ms)))"

fun fill_values :: "(string \<times> real) list \<Rightarrow> py_value list \<Rightarrow> py_value list" where
  "fill_values [] vals = vals"
| "fill_values ((t, v) # rest) vals =
     (if isdigit t then fill_values rest (vals[py_int t := PyFloat v])
      else fill_values rest vals)"

fun series_loop ::
  "nat \<Rightarrow> value_dict \<Rightarrow> (string \<times> py_value list) list \<Rightarrow> (string \<times> py_value list) list" where
  "series_loop max_t [] a_series = a_series"
| "series_loop max_t ((var, tps) # rest) a_series =
     series_loop max_t rest
       (dict_set a_series var (fill_values tps (replicate (max_t + 1) PyNone)))"

definition symbol_timeseries ::
  "Point \<Rightarrow> string list \<Rightarrow> py_error + (string \<times> py_value list) list" where
  "symbol_timeseries point variables =
     (case symbol_values point variables of
        Inl e \<Rightarrow> Inl e
      | Inr series \<Rightarrow>
          (case max_timepoints series of
             Inl e \<Rightarrow> Inl e
           | Inr ms \<Rightarrow>
               (case py_max ms of
                  Inl e \<Rightarrow> Inl e
                | Inr max_t \<Rightarrow>
                    Inr (series_loop max_t series
                           (dict_set [] ''index''
                              (map (\<lambda>i. PyInt (int i)) [0..<max_t + 1]))))))"

section \<open>Properties of the comparator\<close>

lemma lt_irrefl: "\<not> lt a a"
  by (cases a) simp_all

lemma lt_asym: "lt a b \<Longrightarrow> \<not> lt b a"
  by (cases a; cases b) auto

lemma lt_neq: "lt a b \<Longrightarrow> a \<noteq> b"
  using lt_irrefl by blast

lemma lt_trichotomy: "lt a b \<or> a = b \<or> lt b a"
  by (cases a; cases b) auto

section \<open>Interval: construction\<close>

lemma Interval_new_fields:
  "lb (Interval_new l u c) = l"
  "ub (Interval_new l u c) = u"
  "closed_upper_bound (Interval_new l u c) = (c \<or> l = u)"
  "cached_width (Interval_new l u c) = None"
  by (auto simp add: Interval_new_def Interval_init_def check_interval_def)

text \<open>
  Claim C8. Every Interval that the constructor returns satisfies: if \<open>lb = ub\<close> then
  \<open>closed_upper_bound\<close> is true. In particular
  \<^verbatim>\<open>Interval(lb=5, ub=5, closed_upper_bound=False)\<close> is not rejected: it is constructed
  with \<open>closed_upper_bound\<close> true, and one warning is logged for it.
\<close>

theorem check_interval_invariant:
  "(lb (Interval_new l u c) = ub (Interval_new l u c) \<longrightarrow>
      closed_upper_bound (Interval_new l u c)) \<and>
   Interval_init (Num 5) (Num 5) False =
     (\<lparr>lb = Num 5, ub = Num 5, closed_upper_bound = True, cached_width = None\<rparr>,
      [Warning_equal_bounds
         \<lparr>lb = Num 5, ub = Num 5, closed_upper_bound = False, cached_width = None\<rparr>])"
  by (simp add: Interval_new_def Interval_init_def check_interval_def)

theorem check_interval_invariant_witness:
  "lb (Interval_new (Num 5) (Num 5) False) = ub (Interval_new (Num 5) (Num 5) False) \<and>
   closed_upper_bound (Interval_new (Num 5) (Num 5) False)"
  using check_interval_invariant [of "Num 5" "Num 5" False]
  by (simp add: Interval_new_fields)

section \<open>Interval: midpoint\<close>

lemma midpoint_unbound:
  "lb self = NEG_INFINITY \<Longrightarrow> ub self = POS_INFINITY \<Longrightarrow>
     midpoint average self None = Inr (Float 0)"
  by (simp add: midpoint_def)

text \<open>
  On finite bounds the result is the mean, provided the difference of the bounds and
  the mean are below the overflow threshold of the floats.
\<close>

lemma midpoint_finite:
  "lb self = Num l \<Longrightarrow> ub self = Num u \<Longrightarrow>
   \<bar>u - l\<bar> < 2 ^ 1024 - 2 ^ 970 \<Longrightarrow> \<bar>(u - l) / 2 + l\<bar> < 2 ^ 1024 - 2 ^ 970 \<Longrightarrow>
     midpoint average self None = Inr (Float ((u - l) / 2 + l))"
  by (simp add: midpoint_def float_sub_def float_round_def abs_less_iff)

lemma midpoint_one_sided:
  "(lb self = NEG_INFINITY) \<noteq> (ub self = POS_INFINITY) \<Longrightarrow>
     midpoint average self None = Inl (NameError ''BIG_NUMBER'')"
  by (auto simp add: midpoint_def)

text \<open>
  Claim C1. The claim: without points, \<^verbatim>\<open>midpoint\<close> returns 0 on the unbounded
  interval, the finite bound offset by \<^verbatim>\<open>BIG_NUMBER\<close> when one bound is a sentinel (so
  \<open>3 + BIG_NUMBER\<close> on \<open>[3, POS_INFINITY]\<close>), and the mean when both bounds are finite.
  The first and the last part hold (\<open>midpoint_unbound\<close>, \<open>midpoint_finite\<close>, the
  last as far as the float expression does not overflow). The middle part does not: on \<^verbatim>\<open>Interval(lb=3, ub=POS_INFINITY)\<close> the call does not return
  a number, it raises NameError for \<^verbatim>\<open>BIG_NUMBER\<close>, as it does whenever exactly one
  bound is the sentinel of its side (\<open>midpoint_one_sided\<close>).
\<close>

theorem midpoint_BIG_NUMBER_unbound:
  "midpoint average (Interval_new (Num 3) POS_INFINITY False) None =
     Inl (NameError ''BIG_NUMBER'')"
  by (simp add: midpoint_def Interval_new_fields)

section \<open>Interval: normalize\<close>

lemma normalize_bounds:
  "lb (normalize_interval self f) = div_bound (lb self) f"
  "ub (normalize_interval self f) = div_bound (lb self) f"
  "closed_upper_bound (normalize_interval self f)"
  by (simp_all add: normalize_interval_def Interval_new_fields)

text \<open>
  Claim C2. The claim: for a positive factor \<open>f\<close>, \<^verbatim>\<open>normalize(f)\<close> returns the
  interval of the lower bound divided by \<open>f\<close> and the upper bound divided by \<open>f\<close>.
  On \<^verbatim>\<open>Interval(lb=0, ub=10)\<close> and \<open>f = 2\<close> the result is the closed point interval
  at 0, where the claim has the upper bound 5: the upper bound of the result is
  computed from the lower bound of the argument (\<open>normalize_bounds\<close>).
\<close>

theorem normalize_ignores_upper_bound:
  "normalize_interval (Interval_new (Num 0) (Num 10) False) 2 =
     \<lparr>lb = Num 0, ub = Num 0, closed_upper_bound = True, cached_width = None\<rparr>"
  by (simp add: normalize_interval_def div_bound_def Interval_new_def Interval_init_def
      check_interval_def)

section \<open>Interval: contains and intersection\<close>

text \<open>
  Claim C3. The claim: if \<^verbatim>\<open>a.contains(b)\<close> then \<^verbatim>\<open>a.intersection(b)\<close> equals \<open>b\<close>.
  With \<open>a = [0, 10)\<close> and \<open>b = [3, 5)\<close>, \<open>a\<close> contains \<open>b\<close>, and the intersection
  returned is the pair of bounds 3 and 10: the lower bound of the interval that starts
  later and the upper bound of the interval that starts earlier, which is not the upper
  bound of \<open>b\<close> when \<open>b\<close> ends before \<open>a\<close>.
\<close>

theorem intersection_of_contained:
  "contains (Interval_new (Num 0) (Num 10) False) (Interval_new (Num 3) (Num 5) False) \<and>
   intersection (Interval_new (Num 0) (Num 10) False) (Interval_new (Num 3) (Num 5) False) =
     Bounds [Num 3, Num 10]"
  by (simp add: contains_def intersection_def Interval_eq_def bound_le_def gt_def
      Interval_new_fields)

theorem intersection_of_contained_differs:
  "intersection (Interval_new (Num 0) (Num 10) False) (Interval_new (Num 3) (Num 5) False) \<noteq>
     Bounds [lb (Interval_new (Num 3) (Num 5) False), ub (Interval_new (Num 3) (Num 5) False)] \<and>
   intersection (Interval_new (Num 0) (Num 10) False) (Interval_new (Num 3) (Num 5) False) \<noteq>
     Same (Interval_new (Num 3) (Num 5) False)"
  using intersection_of_contained by (simp add: Interval_new_fields)

section \<open>Interval: subtract\<close>

text \<open>
  Claim C4, as stated: \<^verbatim>\<open>subtract\<close> yields the half-open \<open>[self.lb, b.lb)\<close> when
  \<open>self.lb < b.lb\<close>, the closed \<open>[b.ub, self.ub]\<close> when \<open>self.lb > b.lb\<close>, and nothing
  when the lower bounds are equal. The second part fails: for the half-open
  \<open>self = [5, 10)\<close> and \<open>b = [0, 7)\<close> the result has the bounds 7 and 10 and its upper
  bound is open, as the upper bound of \<open>self\<close> is.
\<close>

theorem subtract_upper_part_not_closed:
  "gt (lb (Interval_new (Num 5) (Num 10) False)) (lb (Interval_new (Num 0) (Num 7) False)) \<and>
   subtract (Interval_new (Num 5) (Num 10) False) (Interval_new (Num 0) (Num 7) False) =
     Some \<lparr>lb = Num 7, ub = Num 10, closed_upper_bound = False, cached_width = None\<rparr>"
  by (simp add: subtract_def gt_def Interval_new_def Interval_init_def check_interval_def)

text \<open>
  Claim C4, amended: when \<open>self.lb < b.lb\<close> the result is the half-open interval
  \<open>[self.lb, b.lb)\<close>; when \<open>self.lb > b.lb\<close> the result is an interval with the lower
  bound \<open>b.ub\<close> and the upper bound \<open>self.ub\<close>, which is closed when these two bounds
  are equal and, for a half-open \<open>self\<close>, half-open when they differ; when the lower
  bounds are equal there is no result. Whether the upper bound of the result is closed
  when \<open>self\<close> is closed and the two bounds differ is not part of the statement.
\<close>

theorem subtract_cases:
  "(lt (lb self) (lb b) \<longrightarrow>
      subtract self b =
        Some \<lparr>lb = lb self, ub = lb b, closed_upper_bound = False, cached_width = None\<rparr>) \<and>
   (gt (lb self) (lb b) \<longrightarrow>
      (\<exists>r. subtract self b = Some r \<and> lb r = ub b \<and> ub r = ub self \<and>
           cached_width r = None \<and>
           (ub b = ub self \<longrightarrow> closed_upper_bound r) \<and>
           (\<not> closed_upper_bound self \<and> ub b \<noteq> ub self \<longrightarrow> \<not> closed_upper_bound r))) \<and>
   (lb self = lb b \<longrightarrow> subtract self b = None)"
  using lt_irrefl [of "lb b"] lt_neq [of "lb self" "lb b"] lt_asym [of "lb self" "lb b"]
  by (auto simp add: subtract_def gt_def Interval_new_def Interval_init_def
      check_interval_def)

theorem subtract_cases_witness:
  "lt (lb (Interval_new (Num 0) (Num 7) False)) (lb (Interval_new (Num 5) (Num 10) False)) \<and>
   subtract (Interval_new (Num 0) (Num 7) False) (Interval_new (Num 5) (Num 10) False) =
     Some \<lparr>lb = Num 0, ub = Num 5, closed_upper_bound = False, cached_width = None\<rparr> \<and>
   gt (lb (Interval_new (Num 5) (Num 10) False)) (lb (Interval_new (Num 0) (Num 8) True)) \<and>
   \<not> closed_upper_bound (Interval_new (Num 5) (Num 10) False) \<and>
   ub (Interval_new (Num 0) (Num 8) True) \<noteq> ub (Interval_new (Num 5) (Num 10) False) \<and>
   subtract (Interval_new (Num 5) (Num 10) False) (Interval_new (Num 0) (Num 8) True) =
     Some \<lparr>lb = Num 8, ub = Num 10, closed_upper_bound = False, cached_width = None\<rparr> \<and>
   gt (lb (Interval_new (Num 5) (Num 10) False)) (lb (Interval_new (Num 0) (Num 10) False)) \<and>
   ub (Interval_new (Num 0) (Num 10) False) = ub (Interval_new (Num 5) (Num 10) False) \<and>
   subtract (Interval_new (Num 5) (Num 10) False) (Interval_new (Num 0) (Num 10) False) =
     Some \<lparr>lb = Num 10, ub = Num 10, closed_upper_bound = True, cached_width = None\<rparr> \<and>
   lb (Interval_new (Num 5) (Num 10) False) = lb (Interval_new (Num 5) (Num 7) False) \<and>
   subtract (Interval_new (Num 5) (Num 10) False) (Interval_new (Num 5) (Num 7) False) = None"
  using
    subtract_cases [of "Interval_new (Num 0) (Num 7) False" "Interval_new (Num 5) (Num 10) False"]
    subtract_cases [of "Interval_new (Num 5) (Num 10) False" "Interval_new (Num 0) (Num 8) True"]
    subtract_cases [of "Interval_new (Num 5) (Num 10) False" "Interval_new (Num 0) (Num 10) False"]
    subtract_cases [of "Interval_new (Num 5) (Num 10) False" "Interval_new (Num 5) (Num 7) False"]
  by (simp add: gt_def subtract_def Interval_new_def Interval_init_def check_interval_def)

lemma subtract_None_iff: "subtract self b = None \<longleftrightarrow> lb self = lb b"
  using lt_trichotomy [of "lb self" "lb b"] lt_irrefl [of "lb b"]
  by (auto simp add: subtract_def gt_def)

section \<open>Scenario dispatch\<close>

text \<open>
  Claim C7, as stated: a request with no parameters, or with every parameter labeled
  \<^verbatim>\<open>LABEL_ANY\<close>, goes to a Consistency scenario, and a request with at least one
  parameter labeled otherwise goes to a Parameter-Synthesis scenario (or to the
  exception for the unsupported mode, with an ensemble model). The parameters of a
  request are its model parameters and its structure parameters. The second part
  fails: a request whose only label other than \<^verbatim>\<open>LABEL_ANY\<close> stands on a structure
  parameter goes to a Consistency scenario, which holds that parameter.
\<close>

theorem to_scenario_ignores_structure_labels:
  "''all'' \<noteq> LABEL_ANY \<and>
   to_scenario
     \<lparr>wu_id = ''e'', wu_progress = FunmanProgress_new, wu_model = PetrinetModel,
      wu_request = \<lparr>query = None, constraints = None,
                    parameters = Some [LabeledParameter ''beta'' (Num 0) (Num 1) LABEL_ANY],
                    config = None,
                    structure_parameters =
                      Some [LabeledParameter ''num_steps'' (Num 1) (Num 3) ''all'']\<rparr>\<rparr> =
     Inr (ConsistencyScenario PetrinetModel QueryTrue
            [ModelParameter ''beta'' (Num 0) (Num 1) LABEL_ANY,
             StructureParameter ''num_steps'' (Num 1) (Num 3) ''all''] None)"
  by (simp add: to_scenario_def scenario_query_def scenario_parameters_def LABEL_ANY_def)

text \<open>
  Claim C7, amended: \<^verbatim>\<open>to_scenario\<close> dispatches on the labels of the request's field
  \<^verbatim>\<open>parameters\<close> (the model parameters) alone. It returns a Consistency scenario when
  that field is \<^verbatim>\<open>None\<close> or every entry of it is labeled \<^verbatim>\<open>LABEL_ANY\<close>, whatever the
  labels of the structure parameters; when some entry of it has another label, it
  returns a Parameter-Synthesis scenario, unless the model is an ensemble model, where
  it raises the exception for the unsupported mode. Either scenario gets the model, the
  query, the model and structure parameters and the constraints of the work unit.
\<close>

theorem to_scenario_dispatch:
  "((parameters (wu_request wu) = None \<or>
     (\<exists>lps. parameters (wu_request wu) = Some lps \<and>
            list_all (\<lambda>p. label p = LABEL_ANY) lps)) \<longrightarrow>
      to_scenario wu =
        Inr (ConsistencyScenario (wu_model wu) (scenario_query (wu_request wu))
               (scenario_parameters (wu_request wu)) (constraints (wu_request wu)))) \<and>
   ((\<exists>lps. parameters (wu_request wu) = Some lps \<and>
           list_ex (\<lambda>p. label p \<noteq> LABEL_ANY) lps) \<longrightarrow>
      (wu_model wu \<noteq> EnsembleModel \<longrightarrow>
         to_scenario wu =
           Inr (ParameterSynthesisScenario (wu_model wu) (scenario_query (wu_request wu))
                  (scenario_parameters (wu_request wu)) (constraints (wu_request wu)))) \<and>
      (wu_model wu = EnsembleModel \<longrightarrow>
         to_scenario wu =
           Inl (Exception ''TODO handle EnsembleModel for ParameterSynthesisScenario'')))"
  by (auto simp add: to_scenario_def Let_def list_all_iff list_ex_iff)

theorem to_scenario_dispatch_witness:
  "to_scenario
     \<lparr>wu_id = ''a'', wu_progress = FunmanProgress_new, wu_model = PetrinetModel,
      wu_request = \<lparr>query = None, constraints = None, parameters = None, config = None,
                    structure_parameters = None\<rparr>\<rparr> =
     Inr (ConsistencyScenario PetrinetModel QueryTrue [] None) \<and>
   to_scenario
     \<lparr>wu_id = ''b'', wu_progress = FunmanProgress_new, wu_model = EnsembleModel,
      wu_request = \<lparr>query = Some QueryLE, constraints = None,
                    parameters = Some [LabeledParameter ''beta'' (Num 0) (Num 1) LABEL_ANY],
                    config = None, structure_parameters = None\<rparr>\<rparr> =
     Inr (ConsistencyScenario EnsembleModel QueryLE
            [ModelParameter ''beta'' (Num 0) (Num 1) LABEL_ANY] None) \<and>
   to_scenario
     \<lparr>wu_id = ''c'', wu_progress = FunmanProgress_new, wu_model = PetrinetModel,
      wu_request = \<lparr>query = None, constraints = None,
                    parameters = Some [LabeledParameter ''beta'' (Num 0) (Num 1) ''all''],
                    config = None,
                    structure_parameters =
                      Some [LabeledParameter ''num_steps'' (Num 1) (Num 3) LABEL_ANY]\<rparr>\<rparr> =
     Inr (ParameterSynthesisScenario PetrinetModel QueryTrue
            [ModelParameter ''beta'' (Num 0) (Num 1) ''all'',
             StructureParameter ''num_steps'' (Num 1) (Num 3) LABEL_ANY] None) \<and>
   to_scenario
     \<lparr>wu_id = ''d'', wu_progress = FunmanProgress_new, wu_model = EnsembleModel,
      wu_request = \<lparr>query = None, constraints = None,
                    parameters = Some [LabeledParameter ''beta'' (Num 0) (Num 1) ''all''],
                    config = None, structure_parameters = None\<rparr>\<rparr> =
     Inl (Exception ''TODO handle EnsembleModel for ParameterSynthesisScenario'') \<and>
   to_scenario
     \<lparr>wu_id = ''f'', wu_progress = FunmanProgress_new, wu_model = PetrinetModel,
      wu_request = \<lparr>query = None, constraints = None, parameters = None, config = None,
                    structure_parameters =
                      Some [LabeledParameter ''num_steps'' (Num 1) (Num 3) ''all'']\<rparr>\<rparr> =
     Inr (ConsistencyScenario PetrinetModel QueryTrue
            [StructureParameter ''num_steps'' (Num 1) (Num 3) ''all''] None)"
  using
    to_scenario_dispatch [of
      "\<lparr>wu_id = ''a'', wu_progress = FunmanProgress_new, wu_model = PetrinetModel,
        wu_request = \<lparr>query = None, constraints = None, parameters = None, config = None,
                      structure_parameters = None\<rparr>\<rparr>"]
    to_scenario_dispatch [of
      "\<lparr>wu_id = ''b'', wu_progress = FunmanProgress_new, wu_model = EnsembleModel,
        wu_request = \<lparr>query = Some QueryLE, constraints = None,
                      parameters = Some [LabeledParameter ''beta'' (Num 0) (Num 1) LABEL_ANY],
                      config = None, structure_parameters = None\<rparr>\<rparr>"]
    to_scenario_dispatch [of
      "\<lparr>wu_id = ''c'', wu_progress = FunmanProgress_new, wu_model = PetrinetModel,
        wu_request = \<lparr>query = None, constraints = None,
                      parameters = Some [LabeledParameter ''beta'' (Num 0) (Num 1) ''all''],
                      config = None,
                      structure_parameters =
                        Some [LabeledParameter ''num_steps'' (Num 1) (Num 3) LABEL_ANY]\<rparr>\<rparr>"]
    to_scenario_dispatch [of
      "\<lparr>wu_id = ''d'', wu_progress = FunmanProgress_new, wu_model = EnsembleModel,
        wu_request = \<lparr>query = None, constraints = None,
                      parameters = Some [LabeledParameter ''beta'' (Num 0) (Num 1) ''all''],
                      config = None, structure_parameters = None\<rparr>\<rparr>"]
    to_scenario_dispatch [of
      "\<lparr>wu_id = ''f'', wu_progress = FunmanProgress_new, wu_model = PetrinetModel,
        wu_request = \<lparr>query = None, constraints = None, parameters = None, config = None,
                      structure_parameters =
                        Some [LabeledParameter ''num_steps'' (Num 1) (Num 3) ''all'']\<rparr>\<rparr>"]
  by (simp add: scenario_query_def scenario_parameters_def LABEL_ANY_def)

section \<open>Finalization of the aggregator\<close>

text \<open>
  Claim C5. A freshly constructed aggregator is not final. If a call of
  \<^verbatim>\<open>finalize_result\<close> on an aggregator succeeds, the aggregator was not final before
  and is final afterwards, and every later call of \<^verbatim>\<open>finalize_result\<close> or of
  \<^verbatim>\<open>finalize_result_as_error\<close> raises the exception "already finalized" and changes
  nothing.
\<close>

theorem finalize_result_once:
  "\<not> is_final (FunmanResults_new i m rq) \<and>
   (finalize_result scenario result s0 = (Inr (), s1) \<longrightarrow>
      \<not> is_final s0 \<and> is_final s1 \<and>
      finalize_result scenario' result' s1 =
        (Inl (Exception ''FunmanResults was already finalized''), s1) \<and>
      finalize_result_as_error s1 =
        (Inl (Exception ''FunmanResults was already finalized''), s1))"
  by (auto simp add: is_final_def FunmanResults_new_def finalize_result_def
      finalize_result_as_error_def update_parameter_space_def Let_def
      split: if_splits option.splits)

theorem finalize_result_once_witness:
  "finalize_result \<lparr>search_space_volume = 2, representable_space_volume = 4\<rparr>
     (ConsistencyScenarioResult (Some \<lparr>labeled_volume = 1\<rparr>))
     (FunmanResults_new ''r'' PetrinetModel
        \<lparr>query = None, constraints = None, parameters = None, config = None,
         structure_parameters = None\<rparr>) =
     (Inr (),
      \<lparr>fr_finalized = True, fr_id = ''r'', fr_model = PetrinetModel,
       fr_progress = \<lparr>progress = 1, coverage_of_search_space = 1 / 2,
                      coverage_of_representable_space = 1 / 2\<rparr>,
       fr_request = \<lparr>query = None, constraints = None, parameters = None, config = None,
                     structure_parameters = None\<rparr>,
       fr_done = True, fr_error = False,
       fr_parameter_space = Some \<lparr>labeled_volume = 1\<rparr>\<rparr>) \<and>
   is_final
     \<lparr>fr_finalized = True, fr_id = ''r'', fr_model = PetrinetModel,
      fr_progress = \<lparr>progress = 1, coverage_of_search_space = 1 / 2,
                     coverage_of_representable_space = 1 / 2\<rparr>,
      fr_request = \<lparr>query = None, constraints = None, parameters = None, config = None,
                    structure_parameters = None\<rparr>,
      fr_done = True, fr_error = False,
      fr_parameter_space = Some \<lparr>labeled_volume = 1\<rparr>\<rparr> \<and>
   fst (finalize_result \<lparr>search_space_volume = 2, representable_space_volume = 4\<rparr>
          (ConsistencyScenarioResult (Some \<lparr>labeled_volume = 1\<rparr>))
          \<lparr>fr_finalized = True, fr_id = ''r'', fr_model = PetrinetModel,
           fr_progress = \<lparr>progress = 1, coverage_of_search_space = 1 / 2,
                          coverage_of_representable_space = 1 / 2\<rparr>,
           fr_request = \<lparr>query = None, constraints = None, parameters = None,
                         config = None, structure_parameters = None\<rparr>,
           fr_done = True, fr_error = False,
           fr_parameter_space = Some \<lparr>labeled_volume = 1\<rparr>\<rparr>) =
     Inl (Exception ''FunmanResults was already finalized'')"
proof -
  let ?rq = "\<lparr>query = None, constraints = None, parameters = None, config = None,
              structure_parameters = None\<rparr> :: FunmanWorkRequest"
  let ?sc = "\<lparr>search_space_volume = 2, representable_space_volume = 4\<rparr>"
  let ?res = "ConsistencyScenarioResult (Some \<lparr>labeled_volume = 1\<rparr>)"
  let ?s1 = "\<lparr>fr_finalized = True, fr_id = ''r'', fr_model = PetrinetModel,
              fr_progress = \<lparr>progress = 1, coverage_of_search_space = 1 / 2,
                             coverage_of_representable_space = 1 / 2\<rparr>,
              fr_request = ?rq, fr_done = True, fr_error = False,
              fr_parameter_space = Some \<lparr>labeled_volume = 1\<rparr>\<rparr>"
  have run: "finalize_result ?sc ?res (FunmanResults_new ''r'' PetrinetModel ?rq) = (Inr (), ?s1)"
    by (simp add: finalize_result_def FunmanResults_new_def FunmanProgress_new_def
        update_parameter_space_def result_parameter_space_def Let_def)
  from run
    finalize_result_once [of "''r''" PetrinetModel ?rq ?sc ?res
      "FunmanResults_new ''r'' PetrinetModel ?rq" ?s1 ?sc ?res]
  show ?thesis by simp
qed

text \<open>
  Claim C10. If \<^verbatim>\<open>finalize_result\<close> is called on an aggregator that is not final, with
  a result that carries no parameter space, it raises the exception for the missing
  parameter space and leaves the aggregator as it was but marked final: \<^verbatim>\<open>is_final()\<close>
  is true afterwards, \<^verbatim>\<open>done\<close> and \<^verbatim>\<open>error\<close> keep their values (False on an aggregator
  that was not touched since its construction), and every later finalize call raises
  "already finalized".
\<close>

theorem finalize_result_without_parameter_space:
  "\<not> is_final s \<and> result_parameter_space result = None \<longrightarrow>
     finalize_result scenario result s =
       (Inl (Exception ''No ParameterSpace for result''), s\<lparr>fr_finalized := True\<rparr>) \<and>
     is_final (snd (finalize_result scenario result s)) \<and>
     fr_done (snd (finalize_result scenario result s)) = fr_done s \<and>
     fr_error (snd (finalize_result scenario result s)) = fr_error s \<and>
     fst (finalize_result scenario' result' (snd (finalize_result scenario result s))) =
       Inl (Exception ''FunmanResults was already finalized'') \<and>
     fst (finalize_result_as_error (snd (finalize_result scenario result s))) =
       Inl (Exception ''FunmanResults was already finalized'')"
  by (simp add: is_final_def finalize_result_def finalize_result_as_error_def Let_def)

theorem finalize_result_without_parameter_space_witness:
  "\<not> is_final (FunmanResults_new ''r'' PetrinetModel
       \<lparr>query = None, constraints = None, parameters = None, config = None,
        structure_parameters = None\<rparr>) \<and>
   result_parameter_space (ConsistencyScenarioResult None) = None \<and>
   finalize_result \<lparr>search_space_volume = 2, representable_space_volume = 4\<rparr>
     (ConsistencyScenarioResult None)
     (FunmanResults_new ''r'' PetrinetModel
        \<lparr>query = None, constraints = None, parameters = None, config = None,
         structure_parameters = None\<rparr>) =
     (Inl (Exception ''No ParameterSpace for result''),
      \<lparr>fr_finalized = True, fr_id = ''r'', fr_model = PetrinetModel,
       fr_progress = FunmanProgress_new,
       fr_request = \<lparr>query = None, constraints = None, parameters = None, config = None,
                     structure_parameters = None\<rparr>,
       fr_done = False, fr_error = False, fr_parameter_space = None\<rparr>)"
  using finalize_result_without_parameter_space [of
      "FunmanResults_new ''r'' PetrinetModel
         \<lparr>query = None, constraints = None, parameters = None, config = None,
          structure_parameters = None\<rparr>"
      "ConsistencyScenarioResult None"
      "\<lparr>search_space_volume = 2, representable_space_volume = 4\<rparr>"]
  by (simp add: is_final_def FunmanResults_new_def result_parameter_space_def)

section \<open>Extraction of values\<close>

text \<open>The string operations are the ones of Python.\<close>

lemma str_in_iff: "str_in sub s \<longleftrightarrow> (\<exists>pre post. s = pre @ sub @ post)"
proof (induction s)
  case Nil
  then show ?case by auto
next
  case (Cons c cs)
  show ?case
  proof
    assume "str_in sub (c # cs)"
    then consider "take (length sub) (c # cs) = sub" | "str_in sub cs" by auto
    then show "\<exists>pre post. c # cs = pre @ sub @ post"
    proof cases
      case 1
      then have "c # cs = [] @ sub @ drop (length sub) (c # cs)"
        by (metis append_Nil append_take_drop_id)
      then show ?thesis by blast
    next
      case 2
      with Cons.IH obtain pre post where "cs = pre @ sub @ post" by blast
      then have "c # cs = (c # pre) @ sub @ post" by simp
      then show ?thesis by blast
    qed
  next
    assume "\<exists>pre post. c # cs = pre @ sub @ post"
    then obtain pre post where eq: "c # cs = pre @ sub @ post" by blast
    show "str_in sub (c # cs)"
    proof (cases pre)
      case Nil
      with eq have "take (length sub) (c # cs) = sub" by simp
      then show ?thesis by simp
    next
      case (Cons p ps)
      with eq have "cs = ps @ sub @ post" by simp
      with Cons.IH have "str_in sub cs" by blast
      then show ?thesis by simp
    qed
  qed
qed

lemma split_symbol_last_underscore:
  "CHR ''_'' \<notin> set t \<Longrightarrow> split_symbol (s @ ''_'' @ t) = Inr (s, t)"
  by (simp add: split_symbol_def takeWhile_append dropWhile_append
      takeWhile_eq_all_conv[THEN iffD2] dropWhile_eq_Nil_conv[THEN iffD2])

text \<open>An overflow at any timepoint ends the extraction with the handler's NameError.\<close>

lemma values_inner_overflow:
  "map_of pv symbol = Some v \<Longrightarrow> py_float v = Inl OverflowError \<Longrightarrow>
     values_inner pv ((t, symbol) # rest) acc = Inl (NameError ''l'')"
  by simp

text \<open>
  Claim C9. For the point with the values \<^verbatim>\<open>{"x_0": 1.0, "x_1": 2.0, "y_bad": 9.0}\<close>
  and the requested variables \<^verbatim>\<open>["x"]\<close>, \<^verbatim>\<open>symbol_timeseries\<close> returns the dictionary
  \<^verbatim>\<open>{"index": [0, 1], "x": [1.0, 2.0]}\<close>; the symbol \<^verbatim>\<open>y_bad\<close> is not in it.
\<close>

theorem symbol_timeseries_example:
  "symbol_timeseries
     \<lparr>point_values = [(''x_0'', PyFloat 1), (''x_1'', PyFloat 2), (''y_bad'', PyFloat 9)],
      point_label = ''true''\<rparr> [''x''] =
     Inr [(''index'', [PyInt 0, PyInt 1]), (''x'', [PyFloat 1, PyFloat 2])]"
  by (simp add: symbol_timeseries_def symbol_values_def symbols_of_def split_symbol_def
      py_float_def max_timepoint_def isdigit_def py_int_def digit_value_def)

text \<open>
  Claim C6. The claim: when the conversion of one timepoint's value overflows during
  \<^verbatim>\<open>symbol_values\<close>, the error is caught and logged, that slot stays empty, and the
  other timepoints are extracted. For the point with the values
  \<^verbatim>\<open>{"x_0": 10**400, "x_1": 2.0}\<close> and the variables \<^verbatim>\<open>["x"]\<close> the claim gives
  \<^verbatim>\<open>{"x": {"1": 2.0}}\<close>. The call raises NameError instead: the overflow is caught, and
  the handler fails on the name \<^verbatim>\<open>l\<close> before anything is logged.
\<close>

theorem symbol_values_overflow_aborts:
  "symbol_values
     \<lparr>point_values = [(''x_0'', PyInt (10 ^ 400)), (''x_1'', PyFloat 2)],
      point_label = ''true''\<rparr> [''x''] =
     Inl (NameError ''l'')"
  by (simp add: symbol_values_def symbols_of_def split_symbol_def py_float_def)

end
